theory Spec2Isabelle
  imports Main "HOL-Library.Sublist"
begin

section \<open>dokuwiki2wikijs: DokuWiki pages to Markdown for Wiki.js\<close>

text \<open>
  A shallow embedding of \<^verbatim>\<open>src/main.py\<close>. A Python \<^verbatim>\<open>str\<close> is a \<^typ>\<open>string\<close>;
  a \<^typ>\<open>char\<close> stands for the code point of the same number, so the model covers
  texts over the code points below 256. Every function keeps the name it has in the
  source, without the leading underscore.
\<close>

subsection \<open>String helpers of the Python library\<close>

text \<open>
  \<^verbatim>\<open>str.split(sep)\<close> for a separator of one character: every occurrence of the
  separator ends a field, so the empty text has one empty field.
\<close>

fun split_on :: "char \<Rightarrow> string \<Rightarrow> string list" where
  "split_on d [] = [[]]"
| "split_on d (c # cs) =
     (if c = d then [] # split_on d cs
      else (c # hd (split_on d cs)) # tl (split_on d cs))"

text \<open>\<^verbatim>\<open>sep.join(parts)\<close>.\<close>

fun join :: "string \<Rightarrow> string list \<Rightarrow> string" where
  "join sep [] = []"
| "join sep [p] = p"
| "join sep (p # q # ps) = p @ sep @ join sep (q # ps)"

subsection \<open>Identifiers and paths\<close>

definition COLON :: char where
  "COLON = CHR '':''"

text \<open>
  \<^verbatim>\<open>_dokuwiki_id_to_path(doku_id, *, suffix="", is_media=False)\<close>: the identifier is
  split at every colon and the parts are joined with a slash. The flag
  \<^verbatim>\<open>is_media\<close> is accepted and not used, as in the source; \<open>sfx\<close> stands for the
  parameter \<^verbatim>\<open>suffix\<close>.
\<close>

definition dokuwiki_id_to_path :: "string \<Rightarrow> string \<Rightarrow> bool \<Rightarrow> string" where
  "dokuwiki_id_to_path doku_id sfx is_media =
     (let parts = split_on COLON doku_id in join ''/'' parts @ sfx)"

subsection \<open>Character classes and trimming\<close>

definition NL :: char where
  "NL = CHR 0x0A"

text \<open>
  The class \<^verbatim>\<open>\s\<close> of a \<^verbatim>\<open>str\<close> pattern and the characters that \<^verbatim>\<open>str.strip\<close>
  removes are the same: the characters for which \<^verbatim>\<open>str.isspace\<close> holds. Below code
  point 256 these are the twelve that follow.
\<close>

definition is_space :: "char \<Rightarrow> bool" where
  "is_space c \<longleftrightarrow>
     c \<in> {CHR 0x09, CHR 0x0A, CHR 0x0B, CHR 0x0C, CHR 0x0D, CHR 0x1C, CHR 0x1D, CHR 0x1E,
          CHR 0x1F, CHR 0x20, CHR 0x85, CHR 0xA0}"

definition lstrip :: "string \<Rightarrow> string" where
  "lstrip s = dropWhile is_space s"

definition rstrip :: "string \<Rightarrow> string" where
  "rstrip s = rev (dropWhile is_space (rev s))"

definition strip :: "string \<Rightarrow> string" where
  "strip s = rstrip (lstrip s)"

text \<open>\<^verbatim>\<open>x or d\<close> for an optional text: \<^verbatim>\<open>None\<close> and the empty text are false.\<close>

definition py_or :: "string option \<Rightarrow> string \<Rightarrow> string" where
  "py_or x d = (case x of None \<Rightarrow> d | Some v \<Rightarrow> if v = [] then d else v)"

subsection \<open>Backtracking matching\<close>

text \<open>
  A pattern is tried at one position of the text: it receives whether the position
  starts a line (for \<^verbatim>\<open>^\<close> under \<^verbatim>\<open>re.MULTILINE\<close>) and the text from the position
  on, and returns the groups of the match and the text after the match.

  The matcher of the \<^verbatim>\<open>re\<close> module backtracks. A quantifier is a choice point
  whose alternatives are the numbers of characters it may take, in the order in which
  the matcher tries them: the largest first for a greedy quantifier, the smallest first
  for a lazy one. \<open>first_match\<close> returns the result of the first alternative with
  which the rest of the pattern matches.
\<close>

type_synonym 'm pattern = "bool \<Rightarrow> string \<Rightarrow> ('m \<times> string) option"

fun first_match :: "('a \<Rightarrow> 'b option) \<Rightarrow> 'a list \<Rightarrow> 'b option" where
  "first_match k [] = None"
| "first_match k (x # xs) = (case k x of Some r \<Rightarrow> Some r | None \<Rightarrow> first_match k xs)"

definition greedy :: "nat \<Rightarrow> nat \<Rightarrow> nat list" where
  "greedy lo hi = rev [lo..<Suc hi]"

definition lazy :: "nat \<Rightarrow> nat \<Rightarrow> nat list" where
  "lazy lo hi = [lo..<Suc hi]"

text \<open>The number of leading characters of a class: the most a quantifier over it can take.\<close>

definition run :: "(char \<Rightarrow> bool) \<Rightarrow> string \<Rightarrow> nat" where
  "run cls s = length (takeWhile cls s)"

text \<open>A literal text.\<close>

definition lit :: "string \<Rightarrow> string \<Rightarrow> string option" where
  "lit l s = (if prefix l s then Some (drop (length l) s) else None)"

text \<open>\<^verbatim>\<open>$\<close> under \<^verbatim>\<open>re.MULTILINE\<close>: the end of the text, or the position before a newline.\<close>

definition at_eol :: "string \<Rightarrow> bool" where
  "at_eol s = (case s of [] \<Rightarrow> True | c # _ \<Rightarrow> c = NL)"

text \<open>The alternatives of \<^verbatim>\<open>\n?\<close>: with the newline first, then without.\<close>

definition opt_nl :: "string \<Rightarrow> string list" where
  "opt_nl s = (case lit [NL] s of Some s' \<Rightarrow> [s', s] | None \<Rightarrow> [s])"

subsection \<open>The patterns\<close>

text \<open>
  \<^verbatim>\<open>_HEADING_RE = re.compile(r"^(={2,6})\s*(.*?)\s*\1$", re.MULTILINE)\<close>.
  The groups are the run of signs and the heading text; the dot does not match a newline.
  \<open>heading_rest s n\<close> is the pattern after the first group has taken \<open>n\<close> signs:
  \<^verbatim>\<open>\s*\<close> (greedy), \<^verbatim>\<open>(.*?)\<close> (lazy), \<^verbatim>\<open>\s*\<close> (greedy), the text of the first group
  again, and the end of a line.
\<close>

definition heading_rest :: "string \<Rightarrow> nat \<Rightarrow> ((string \<times> string) \<times> string) option" where
  "heading_rest s n =
     (let g1 = take n s; s1 = drop n s in
      first_match (\<lambda>i.
        let s2 = drop i s1 in
        first_match (\<lambda>j.
          let g2 = take j s2; s3 = drop j s2 in
          first_match (\<lambda>k.
            case lit g1 (drop k s3) of
              None \<Rightarrow> None
            | Some s4 \<Rightarrow> if at_eol s4 then Some ((g1, g2), s4) else None)
          (greedy 0 (run is_space s3)))
        (lazy 0 (run (\<lambda>c. c \<noteq> NL) s2)))
      (greedy 0 (run is_space s1)))"

definition HEADING_RE :: "(string \<times> string) pattern" where
  "HEADING_RE bol s =
     (if \<not> bol then None
      else first_match (heading_rest s) (greedy 2 (min 6 (run (\<lambda>c. c = CHR ''='') s))))"

text \<open>
  The two patterns of \<^verbatim>\<open>_BOLD_ITALIC_REPLACEMENTS\<close>, \<^verbatim>\<open>\*\*([^*]+)\*\*\<close> and
  \<^verbatim>\<open>//([^/]+)//\<close>, have one shape: a delimiter, one or more characters other than
  the delimiter's character (greedy), the delimiter.
\<close>

definition span_pattern :: "string \<Rightarrow> (char \<Rightarrow> bool) \<Rightarrow> string pattern" where
  "span_pattern delim cls bol s =
     (case lit delim s of
        None \<Rightarrow> None
      | Some s1 \<Rightarrow>
          first_match (\<lambda>n.
            case lit delim (drop n s1) of
              None \<Rightarrow> None
            | Some s2 \<Rightarrow> Some (take n s1, s2))
          (greedy 1 (run cls s1)))"

definition BOLD_RE :: "string pattern" where
  "BOLD_RE = span_pattern ''**'' (\<lambda>c. c \<noteq> CHR ''*'')"

definition ITALIC_RE :: "string pattern" where
  "ITALIC_RE = span_pattern ''//'' (\<lambda>c. c \<noteq> CHR ''/'')"

text \<open>
  \<^verbatim>\<open>_LINK_RE = re.compile(r"\[\[(?P<target>[^]|]+)(?:\|(?P<label>[^]]+))?]]")\<close> and
  \<^verbatim>\<open>_IMAGE_RE = re.compile(r"{{(?P<target>[^}|]+)(?:\|(?P<alt>[^}]+))?}}")\<close> have one
  shape too: an opening text, the target (greedy), an optional group of a bar and a
  second text (greedy; the matcher tries the pattern with the group before it
  tries it without), the closing text. The second group is \<open>None\<close> when it takes no
  part in the match.
\<close>

definition bracket_pattern ::
  "string \<Rightarrow> (char \<Rightarrow> bool) \<Rightarrow> (char \<Rightarrow> bool) \<Rightarrow> string \<Rightarrow> (string \<times> string option) pattern"
where
  "bracket_pattern opener tcls lcls closer bol s =
     (case lit opener s of
        None \<Rightarrow> None
      | Some s1 \<Rightarrow>
          first_match (\<lambda>n.
            let target = take n s1; s2 = drop n s1 in
            case (case lit ''|'' s2 of
                    None \<Rightarrow> None
                  | Some s3 \<Rightarrow>
                      first_match (\<lambda>k.
                        case lit closer (drop k s3) of
                          None \<Rightarrow> None
                        | Some s4 \<Rightarrow> Some ((target, Some (take k s3)), s4))
                      (greedy 1 (run lcls s3)))
            of
              Some r \<Rightarrow> Some r
            | None \<Rightarrow>
                (case lit closer s2 of
                   None \<Rightarrow> None
                 | Some s4 \<Rightarrow> Some ((target, None), s4)))
          (greedy 1 (run tcls s1)))"

definition LINK_RE :: "(string \<times> string option) pattern" where
  "LINK_RE =
     bracket_pattern ''[['' (\<lambda>c. c \<noteq> CHR '']'' \<and> c \<noteq> CHR ''|'') (\<lambda>c. c \<noteq> CHR '']'') '']]''"

definition IMAGE_RE :: "(string \<times> string option) pattern" where
  "IMAGE_RE =
     bracket_pattern ''{{'' (\<lambda>c. c \<noteq> CHR ''}'' \<and> c \<noteq> CHR ''|'') (\<lambda>c. c \<noteq> CHR ''}'') ''}}''"

text \<open>
  \<^verbatim>\<open>_CODEBLOCK_RE = re.compile(r"<code(?: [^>]*)?>\n?(.*?)\n?</code>", re.S)\<close>. Under
  \<^verbatim>\<open>re.S\<close> the dot matches every character. The alternatives of the optional
  attribute group are the texts that it may leave: after a space and some characters
  other than \<^verbatim>\<open>>\<close> (greedy), or the text as it is.
\<close>

definition CODEBLOCK_RE :: "string pattern" where
  "CODEBLOCK_RE bol s =
     (case lit ''<code'' s of
        None \<Rightarrow> None
      | Some s1 \<Rightarrow>
          first_match (\<lambda>s2.
            case lit ''>'' s2 of
              None \<Rightarrow> None
            | Some s3 \<Rightarrow>
                first_match (\<lambda>s4.
                  first_match (\<lambda>j.
                    first_match (\<lambda>s5.
                      case lit ''</code>'' s5 of
                        None \<Rightarrow> None
                      | Some s6 \<Rightarrow> Some (take j s4, s6))
                    (opt_nl (drop j s4)))
                  (lazy 0 (length s4)))
                (opt_nl s3))
          ((case lit '' '' s1 of
              None \<Rightarrow> []
            | Some s1' \<Rightarrow> map (\<lambda>n. drop n s1') (greedy 0 (run (\<lambda>c. c \<noteq> CHR ''>'') s1')))
           @ [s1]))"

text \<open>\<^verbatim>\<open>_NOWIKI_RE = re.compile(r"<nowiki>(.*?)</nowiki>", re.S)\<close>.\<close>

definition NOWIKI_RE :: "string pattern" where
  "NOWIKI_RE bol s =
     (case lit ''<nowiki>'' s of
        None \<Rightarrow> None
      | Some s1 \<Rightarrow>
          first_match (\<lambda>j.
            case lit ''</nowiki>'' (drop j s1) of
              None \<Rightarrow> None
            | Some s2 \<Rightarrow> Some (take j s1, s2))
          (lazy 0 (length s1)))"

text \<open>\<^verbatim>\<open>_TABLE_RE = re.compile(r"^\^(.*?)\^$", re.M)\<close>.\<close>

definition TABLE_RE :: "string pattern" where
  "TABLE_RE bol s =
     (if \<not> bol then None
      else case lit ''^'' s of
        None \<Rightarrow> None
      | Some s1 \<Rightarrow>
          first_match (\<lambda>j.
            case lit ''^'' (drop j s1) of
              None \<Rightarrow> None
            | Some s2 \<Rightarrow> if at_eol s2 then Some (take j s1, s2) else None)
          (lazy 0 (run (\<lambda>c. c \<noteq> NL) s1)))"

subsection \<open>Substitution\<close>

text \<open>
  \<^verbatim>\<open>pattern.sub(repl, text)\<close> scans the text from the left. Where the pattern
  matches, the replacement of the match is emitted and the scan goes on after the
  match; elsewhere the character is copied. A position starts a line when it is the
  first of the text or follows a newline. Every pattern of this program consumes at
  least one character where it matches (lemma \<open>patterns_consume\<close>), so the scan
  has no rule for an empty match: a result that is not shorter than the text at the
  position counts as no match there.
\<close>

fun re_sub_from :: "'m pattern \<Rightarrow> ('m \<Rightarrow> string) \<Rightarrow> bool \<Rightarrow> string \<Rightarrow> string" where
  "re_sub_from pat repl bol [] = []"
| "re_sub_from pat repl bol (c # cs) =
     (case pat bol (c # cs) of
        None \<Rightarrow> c # re_sub_from pat repl (c = NL) cs
      | Some (m, rest) \<Rightarrow>
          if length rest \<le> length cs
          then repl m @ re_sub_from pat repl
                 (last (take (Suc (length cs) - length rest) (c # cs)) = NL) rest
          else c # re_sub_from pat repl (c = NL) cs)"

definition re_sub :: "'m pattern \<Rightarrow> ('m \<Rightarrow> string) \<Rightarrow> string \<Rightarrow> string" where
  "re_sub pat repl text = re_sub_from pat repl True text"


subsection \<open>The converter\<close>

text \<open>The inner function \<^verbatim>\<open>heading\<close> of \<^verbatim>\<open>_dk_to_md_regex\<close>.\<close>

definition heading :: "string \<times> string \<Rightarrow> string" where
  "heading m = (let level = length (fst m) in replicate level CHR ''#'' @ '' '' @ snd m)"

text \<open>
  The templates \<^verbatim>\<open>r"**\1**"\<close> and \<^verbatim>\<open>r"*\1*"\<close> of \<^verbatim>\<open>_BOLD_ITALIC_REPLACEMENTS\<close>, each
  with its pattern.
\<close>

definition BOLD_ITALIC_REPLACEMENTS :: "(string pattern \<times> (string \<Rightarrow> string)) list" where
  "BOLD_ITALIC_REPLACEMENTS =
     [(BOLD_RE, \<lambda>g1. ''**'' @ g1 @ ''**''),
      (ITALIC_RE, \<lambda>g1. ''*'' @ g1 @ ''*'')]"

text \<open>The replacement of \<^verbatim>\<open>_CODEBLOCK_RE\<close> and of \<^verbatim>\<open>_NOWIKI_RE\<close>.\<close>

definition fence :: "string \<Rightarrow> string" where
  "fence g1 = ''```'' @ [NL] @ rstrip g1 @ [NL] @ ''```''"

text \<open>\<open>embedded\<close> stands for the parameter \<^verbatim>\<open>embed\<close>.\<close>

definition replace_media :: "string \<times> string option \<Rightarrow> string \<Rightarrow> bool \<Rightarrow> string" where
  "replace_media match page_ns embedded =
     (let target = fst match;
          alt = py_or (snd match) [];
          md_path = dokuwiki_id_to_path target [] True
      in if embedded then ''!['' @ alt @ '']('' @ md_path @ '')''
         else ''['' @ alt @ '']('' @ md_path @ '')'')"

definition replace_links :: "string \<times> string option \<Rightarrow> string \<Rightarrow> string" where
  "replace_links match page_ns =
     (let target = fst match;
          label = py_or (snd match) target;
          md_path = dokuwiki_id_to_path target ''.md'' False
      in ''['' @ label @ '']('' @ md_path @ '')'')"

text \<open>The replacement of \<^verbatim>\<open>_TABLE_RE\<close>.\<close>

definition table_row :: "string \<Rightarrow> string" where
  "table_row g1 = ''| '' @ join '' | '' (map strip (split_on CHR ''^'' g1)) @ '' |''"

definition dk_to_md_regex :: "string \<Rightarrow> string \<Rightarrow> string" where
  "dk_to_md_regex source page_ns =
     (let txt = re_sub HEADING_RE heading source;
          txt = foldl (\<lambda>txt (pattern, repl). re_sub pattern repl txt) txt BOLD_ITALIC_REPLACEMENTS;
          txt = re_sub CODEBLOCK_RE fence txt;
          txt = re_sub NOWIKI_RE fence txt;
          txt = re_sub IMAGE_RE (\<lambda>m. replace_media m page_ns True) txt;
          txt = re_sub LINK_RE (\<lambda>m. replace_links m page_ns) txt;
          txt = re_sub TABLE_RE table_row txt
      in txt)"

subsection \<open>Paths and the file system\<close>

text \<open>
  A \<^verbatim>\<open>pathlib.Path\<close> is the list of its parts, as \<^verbatim>\<open>PurePosixPath.parts\<close> gives
  them: an absolute path starts with the part \<^verbatim>\<open>/\<close> (or \<^verbatim>\<open>//\<close>). \<open>Path\<close> reads a
  text as the constructor does: empty components and the component \<^verbatim>\<open>.\<close> are
  dropped, and exactly two leading slashes are kept apart from one.
\<close>

type_synonym path = "string list"

definition Path :: "string \<Rightarrow> path" where
  "Path s =
     (let names = filter (\<lambda>p. p \<noteq> [] \<and> p \<noteq> ''.'') (split_on CHR ''/'' s) in
      if prefix ''//'' s \<and> \<not> prefix ''///'' s then ''//'' # names
      else if prefix ''/'' s then ''/'' # names
      else names)"

text \<open>\<^verbatim>\<open>a / b\<close>: an absolute right operand replaces the left one.\<close>

definition pjoin :: "path \<Rightarrow> path \<Rightarrow> path" where
  "pjoin a b =
     (case b of
        [] \<Rightarrow> a
      | p # _ \<Rightarrow> if p = ''/'' \<or> p = ''//'' then b else a @ b)"

text \<open>\<^verbatim>\<open>path.parent\<close>: the root and the empty path are their own parents.\<close>

definition parent :: "path \<Rightarrow> path" where
  "parent p = (if p = [] \<or> p = [''/''] \<or> p = [''//''] then p else butlast p)"

text \<open>
  The file system holds the text of every regular file and the set of the
  directories. The calls of \<^verbatim>\<open>pathlib\<close> and \<^verbatim>\<open>shutil\<close> are modelled by what they
  do when the operating system carries them out; failures of the operating system
  itself (permissions, a full disk, a directory where a file is to be written) are
  outside the model, and so are the timestamps that \<^verbatim>\<open>copy2\<close> preserves.
\<close>

record filesystem =
  files :: "path \<rightharpoonup> string"
  dirs :: "path set"

text \<open>\<^verbatim>\<open>path.exists()\<close>.\<close>

definition exists :: "filesystem \<Rightarrow> path \<Rightarrow> bool" where
  "exists fs p \<longleftrightarrow> files fs p \<noteq> None \<or> p \<in> dirs fs"

text \<open>\<^verbatim>\<open>path.mkdir(parents=True, exist_ok=True)\<close>: the directory and all its ancestors.\<close>

definition mkdir :: "path \<Rightarrow> filesystem \<Rightarrow> filesystem" where
  "mkdir d fs = fs\<lparr>dirs := dirs fs \<union> set (filter (\<lambda>p. p \<noteq> []) (prefixes d))\<rparr>"

text \<open>\<^verbatim>\<open>path.write_text(content, encoding="utf-8")\<close>.\<close>

definition write_text :: "path \<Rightarrow> string \<Rightarrow> filesystem \<Rightarrow> filesystem" where
  "write_text p content fs = fs\<lparr>files := (files fs)(p \<mapsto> content)\<rparr>"

text \<open>
  \<^verbatim>\<open>shutil.copy2(src, dst)\<close>, given the bytes of the source file: the destination
  holds them afterwards.
\<close>

definition copy2 :: "string \<Rightarrow> path \<Rightarrow> filesystem \<Rightarrow> filesystem" where
  "copy2 bytes dst fs = fs\<lparr>files := (files fs)(dst \<mapsto> bytes)\<rparr>"

subsection \<open>Writing pages\<close>

datatype error = FileExistsError path

text \<open>
  \<^verbatim>\<open>_write_file(path, content, force=False)\<close> returns the error it raises, if any,
  and the file system it leaves.
\<close>

definition write_file :: "path \<Rightarrow> string \<Rightarrow> bool \<Rightarrow> filesystem \<Rightarrow> error option \<times> filesystem" where
  "write_file p content force fs =
     (if exists fs p \<and> \<not> force then (Some (FileExistsError p), fs)
      else (None, write_text p content (mkdir (parent p) fs)))"

subsection \<open>Media handling\<close>

text \<open>
  An entry of \<^verbatim>\<open>media_root.rglob("*")\<close>: its path relative to the media root
  (\<^verbatim>\<open>rel_ns\<close>) and what is found there, a regular file with its bytes or something
  else, for which \<^verbatim>\<open>is_file()\<close> is false.
\<close>

datatype node = RegularFile string | Directory

fun copy_media :: "(path \<times> node) list \<Rightarrow> path \<Rightarrow> bool \<Rightarrow> filesystem \<Rightarrow> filesystem" where
  "copy_media [] dest_root force fs = fs"
| "copy_media ((rel_ns, Directory) # media) dest_root force fs =
     copy_media media dest_root force fs"
| "copy_media ((rel_ns, RegularFile bytes) # media) dest_root force fs =
     (let dest_path = pjoin (pjoin dest_root (Path ''_media'')) rel_ns in
      if exists fs dest_path \<and> \<not> force then copy_media media dest_root force fs
      else copy_media media dest_root force (copy2 bytes dest_path (mkdir (parent dest_path) fs)))"

subsection \<open>The conversion driver\<close>

text \<open>
  The loop of \<^verbatim>\<open>convert_site\<close> over \<^verbatim>\<open>_iter_txt_files(pages_dir)\<close>. A page is given by
  \<^verbatim>\<open>rel_ns.parts\<close>, the parts of its path relative to the pages directory without the
  suffix \<^verbatim>\<open>.txt\<close>, and by its text. The source tree is only read. An error ends
  the loop, as the exception does.
\<close>

fun convert_pages ::
  "(string \<Rightarrow> string \<Rightarrow> string) \<Rightarrow> (path \<times> string) list \<Rightarrow> path \<Rightarrow> bool \<Rightarrow> filesystem
     \<Rightarrow> error option \<times> filesystem"
where
  "convert_pages converter [] output_dir force fs = (None, fs)"
| "convert_pages converter ((rel_ns, src_text) # pages) output_dir force fs =
     (let page_id = join [COLON] rel_ns;
          md_rel_path = Path (dokuwiki_id_to_path page_id ''.md'' False);
          md_abs_path = pjoin output_dir md_rel_path;
          md_text = converter src_text page_id
      in case write_file md_abs_path md_text force fs of
           (Some e, fs') \<Rightarrow> (Some e, fs')
         | (None, fs') \<Rightarrow> convert_pages converter pages output_dir force fs')"

text \<open>
  \<^verbatim>\<open>converter = dk2md or _dk_to_md_regex\<close>, where \<open>dk2md\<close> is the converter of the
  optional package, if it is installed.
\<close>

definition converter_of ::
  "(string \<Rightarrow> string \<Rightarrow> string) option \<Rightarrow> string \<Rightarrow> string \<Rightarrow> string"
where
  "converter_of dk2md = (case dk2md of Some f \<Rightarrow> f | None \<Rightarrow> dk_to_md_regex)"

text \<open>
  \<^verbatim>\<open>convert_site\<close>. \<open>media\<close> is \<open>None\<close> when no media directory is given or it does
  not exist, and the entries of the media directory otherwise. The progress messages
  of \<^verbatim>\<open>--verbose\<close> are left out.
\<close>

definition convert_site ::
  "(string \<Rightarrow> string \<Rightarrow> string) option \<Rightarrow> (path \<times> string) list \<Rightarrow> path
     \<Rightarrow> (path \<times> node) list option \<Rightarrow> bool \<Rightarrow> filesystem \<Rightarrow> error option \<times> filesystem"
where
  "convert_site dk2md pages output_dir media force fs =
     (let converter = converter_of dk2md in
      case convert_pages converter pages output_dir force fs of
        (Some e, fs') \<Rightarrow> (Some e, fs')
      | (None, fs') \<Rightarrow>
          (case media of
             None \<Rightarrow> (None, fs')
           | Some entries \<Rightarrow> (None, copy_media entries output_dir force fs')))"

subsection \<open>Destinations\<close>

text \<open>
  Names for two paths that the driver computes on its way: the destination of a page
  (\<^verbatim>\<open>md_abs_path\<close> in \<^verbatim>\<open>convert_site\<close>) and the destination of a media file
  (\<^verbatim>\<open>dest_path\<close> in \<^verbatim>\<open>_copy_media\<close>).
\<close>

definition md_abs_path :: "path \<Rightarrow> path \<Rightarrow> path" where
  "md_abs_path output_dir rel_ns =
     pjoin output_dir (Path (dokuwiki_id_to_path (join [COLON] rel_ns) ''.md'' False))"

definition media_dest :: "path \<Rightarrow> path \<Rightarrow> path" where
  "media_dest dest_root rel_ns = pjoin (pjoin dest_root (Path ''_media'')) rel_ns"

section \<open>Properties\<close>

subsection \<open>Splitting and joining\<close>

lemma split_on_not_Nil [simp]: "split_on d s \<noteq> []"
  by (cases s) simp_all

lemma join_Cons_head: "join sep ((c # p) # ps) = c # join sep (p # ps)"
  by (cases ps) simp_all

lemma join_Nil_head: "join sep ([] # q # ps) = sep @ join sep (q # ps)"
  by simp

text \<open>Splitting at a character and joining with another replaces the one by the other.\<close>

lemma join_split_on:
  "join [e] (split_on d s) = map (\<lambda>c. if c = d then e else c) s"
proof (induction s)
  case Nil
  show ?case by simp
next
  case (Cons c cs)
  obtain p ps where ps: "split_on d cs = p # ps"
    by (cases "split_on d cs") simp_all
  show ?case
  proof (cases "c = d")
    case True
    with Cons ps show ?thesis by simp
  next
    case False
    with Cons ps show ?thesis by (simp add: join_Cons_head)
  qed
qed

lemma dokuwiki_id_to_path_map:
  "dokuwiki_id_to_path doku_id sfx is_media =
     map (\<lambda>c. if c = CHR '':'' then CHR ''/'' else c) doku_id @ sfx"
  by (simp add: dokuwiki_id_to_path_def COLON_def join_split_on)

lemma split_on_free: "d \<notin> set s \<Longrightarrow> split_on d s = [s]"
  by (induction s) auto

lemma split_on_append_sep:
  "d \<notin> set p \<Longrightarrow> split_on d (p @ d # s) = p # split_on d s"
  by (induction p) auto

lemma split_on_join_Cons:
  "\<forall>s\<in>set (p # ps). d \<notin> set s \<Longrightarrow> split_on d (join [d] (p # ps)) = p # ps"
proof (induction ps arbitrary: p)
  case Nil
  then show ?case by (simp add: split_on_free)
next
  case (Cons q qs)
  from Cons.prems have "d \<notin> set p" by simp
  then have "split_on d (join [d] (p # q # qs)) = p # split_on d (join [d] (q # qs))"
    using split_on_append_sep[of d p "join [d] (q # qs)"] by simp
  with Cons show ?case by simp
qed

lemma split_on_join:
  "segs \<noteq> [] \<Longrightarrow> \<forall>s\<in>set segs. d \<notin> set s \<Longrightarrow> split_on d (join [d] segs) = segs"
  by (cases segs) (simp_all only: split_on_join_Cons list.distinct not_False_eq_True)

lemma join_eq_Nil:
  "join sep segs = [] \<Longrightarrow> \<forall>s\<in>set segs. s \<noteq> [] \<Longrightarrow> segs = []"
  by (induction sep segs rule: join.induct) auto

lemma join_inj:
  assumes eq: "join [d] xs = join [d] ys"
    and xs: "\<forall>s\<in>set xs. s \<noteq> [] \<and> d \<notin> set s"
    and ys: "\<forall>s\<in>set ys. s \<noteq> [] \<and> d \<notin> set s"
  shows "xs = ys"
proof (cases "xs = [] \<or> ys = []")
  case True
  with assms show ?thesis
    by (metis join.simps(1) join_eq_Nil)
next
  case False
  from False xs have "xs = split_on d (join [d] xs)"
    by (simp add: split_on_join)
  also have "\<dots> = split_on d (join [d] ys)"
    by (simp only: eq)
  also from False ys have "\<dots> = ys"
    by (simp add: split_on_join)
  finally show ?thesis .
qed

lemma set_join_subset: "set (join sep segs) \<subseteq> set sep \<union> \<Union> (set ` set segs)"
  by (induction sep segs rule: join.induct) auto

lemma map_replace_inj:
  assumes "map (\<lambda>c. if c = d then e else c) a = map (\<lambda>c. if c = d then e else c) b"
    and "e \<notin> set a" and "e \<notin> set b"
  shows "a = b"
  using assms
proof (induction a arbitrary: b)
  case Nil
  then show ?case by simp
next
  case (Cons x a)
  then obtain y b' where b: "b = y # b'" by (cases b) auto
  with Cons.prems have "x = y" by (auto split: if_splits)
  moreover from Cons b have "a = b'" by auto
  ultimately show ?case using b by simp
qed

subsection \<open>C3: identifiers and paths\<close>

text \<open>
  C3, as stated: distinct identifiers made of non-empty segments without a colon are
  mapped to distinct paths. The code passes a slash inside a segment through, so the
  identifier with the one segment \<^verbatim>\<open>a/b\<close> and the identifier with the two segments
  \<^verbatim>\<open>a\<close>, \<^verbatim>\<open>b\<close> are both well formed, differ, and meet at the path \<^verbatim>\<open>a/b.md\<close>.
\<close>

theorem dokuwiki_id_to_path_collision:
  "[''a/b''] \<noteq> [''a'', ''b'']
   \<and> COLON \<notin> set ''a/b'' \<and> COLON \<notin> set ''a'' \<and> COLON \<notin> set ''b''
   \<and> dokuwiki_id_to_path (join [COLON] [''a/b'']) ''.md'' False = ''a/b.md''
   \<and> dokuwiki_id_to_path (join [COLON] [''a'', ''b'']) ''.md'' False = ''a/b.md''"
  by (simp add: dokuwiki_id_to_path_def COLON_def)

text \<open>
  C3, amended: when no segment holds a colon or a slash (the segments that
  \<^verbatim>\<open>convert_site\<close> takes from the parts of a file path are such), distinct
  identifiers are mapped to distinct paths, whatever the suffix.
\<close>

theorem dokuwiki_id_to_path_injective:
  assumes "\<forall>s\<in>set segs1. s \<noteq> [] \<and> COLON \<notin> set s \<and> CHR ''/'' \<notin> set s"
    and "\<forall>s\<in>set segs2. s \<noteq> [] \<and> COLON \<notin> set s \<and> CHR ''/'' \<notin> set s"
    and "segs1 \<noteq> segs2"
  shows "dokuwiki_id_to_path (join [COLON] segs1) sfx is_media
          \<noteq> dokuwiki_id_to_path (join [COLON] segs2) sfx is_media"
proof
  assume eq: "dokuwiki_id_to_path (join [COLON] segs1) sfx is_media
                = dokuwiki_id_to_path (join [COLON] segs2) sfx is_media"
  have "CHR ''/'' \<notin> set (join [COLON] segs1)" "CHR ''/'' \<notin> set (join [COLON] segs2)"
    using assms(1,2) set_join_subset[of "[COLON]" segs1] set_join_subset[of "[COLON]" segs2]
    by (auto simp: COLON_def)
  with eq have "join [COLON] segs1 = join [COLON] segs2"
    by (simp add: dokuwiki_id_to_path_map map_replace_inj)
  with assms(1,2) have "segs1 = segs2"
    by (auto intro!: join_inj[of COLON segs1 segs2])
  with assms(3) show False by simp
qed

theorem dokuwiki_id_to_path_injective_witness:
  "dokuwiki_id_to_path (join [COLON] [''a'', ''b'', ''c'']) ''.md'' False
     \<noteq> dokuwiki_id_to_path (join [COLON] [''a'', ''b'', ''d'']) ''.md'' False"
  using dokuwiki_id_to_path_injective
    [of "[''a'', ''b'', ''c'']" "[''a'', ''b'', ''d'']" "''.md''" False]
  by (simp add: COLON_def)

subsection \<open>The file system\<close>

lemma files_mkdir [simp]: "files (mkdir d fs) = files fs"
  by (simp add: mkdir_def)

lemma dirs_mkdir_mono: "dirs fs \<subseteq> dirs (mkdir d fs)"
  by (auto simp: mkdir_def)

lemma files_write_text [simp]: "files (write_text p c fs) = (files fs)(p \<mapsto> c)"
  by (simp add: write_text_def)

lemma dirs_write_text [simp]: "dirs (write_text p c fs) = dirs fs"
  by (simp add: write_text_def)

lemma files_copy2 [simp]: "files (copy2 b p fs) = (files fs)(p \<mapsto> b)"
  by (simp add: copy2_def)

lemma dirs_copy2 [simp]: "dirs (copy2 b p fs) = dirs fs"
  by (simp add: copy2_def)











lemma Path_media [simp]: "Path ''_media'' = [''_media'']"
  by (simp add: Path_def)


lemma copy_media_file_step:
  "copy_media ((rel_ns, RegularFile bytes) # media) dest_root force fs =
     (if exists fs (media_dest dest_root rel_ns) \<and> \<not> force
      then copy_media media dest_root force fs
      else copy_media media dest_root force
             (copy2 bytes (media_dest dest_root rel_ns)
                (mkdir (parent (media_dest dest_root rel_ns)) fs)))"
  by (simp add: media_dest_def Let_def)

lemma copy_media_keeps_existing:
  "files fs p = Some old \<Longrightarrow> files (copy_media media dest_root False fs) p = Some old"
proof (induction media arbitrary: fs)
  case Nil
  then show ?case by simp
next
  case (Cons entry media)
  obtain rel_ns n where entry: "entry = (rel_ns, n)" by (cases entry)
  show ?case
  proof (cases n)
    case Directory
    with Cons entry show ?thesis by simp
  next
    case (RegularFile bytes)
    show ?thesis
    proof (cases "exists fs (media_dest dest_root rel_ns)")
      case True
      with Cons entry RegularFile show ?thesis
        by (simp add: copy_media_file_step del: copy_media.simps)
    next
      case False
      with Cons.prems have "media_dest dest_root rel_ns \<noteq> p"
        by (auto simp: exists_def)
      with Cons.prems have
        "files (copy2 bytes (media_dest dest_root rel_ns)
                  (mkdir (parent (media_dest dest_root rel_ns)) fs)) p = Some old"
        by simp
      then have "files (copy_media media dest_root False
          (copy2 bytes (media_dest dest_root rel_ns)
                  (mkdir (parent (media_dest dest_root rel_ns)) fs))) p = Some old"
        by (rule Cons.IH)
      with False entry RegularFile show ?thesis
        by (simp add: copy_media_file_step del: copy_media.simps)
    qed
  qed
qed


lemma convert_site_media_phase:
  "convert_pages (converter_of dk2md) pages output_dir force fs
     = (None, fs') \<Longrightarrow>
   convert_site dk2md pages output_dir (Some media) force fs =
     (None, copy_media media output_dir force fs')"
  by (simp add: convert_site_def del: convert_pages.simps)





subsection \<open>C10: a refused write changes nothing\<close>



subsection \<open>C4: the overwrite policy for pages\<close>



subsection \<open>C5: media files that exist are skipped\<close>

text \<open>
  C5: without \<^verbatim>\<open>force\<close>, a media file whose destination exists is skipped and the
  loop goes on with the remaining entries; \<^verbatim>\<open>_copy_media\<close> has no error to return,
  so a run whose pages are written ends without an error after the media phase; and
  a file that exists before the copy holds the same bytes after it.
\<close>

theorem copy_media_skips_existing:
  "(exists fs (media_dest dest_root rel_ns) \<and> \<not> force \<longrightarrow>
      copy_media ((rel_ns, RegularFile bytes) # media) dest_root force fs
        = copy_media media dest_root force fs)
   \<and> (files fs p = Some old \<longrightarrow> files (copy_media media dest_root False fs) p = Some old)
   \<and> (convert_pages (converter_of dk2md) pages dest_root force fs = (None, fs') \<longrightarrow>
      convert_site dk2md pages dest_root (Some media) force fs
        = (None, copy_media media dest_root force fs'))"
  using copy_media_keeps_existing convert_site_media_phase
  by (simp add: copy_media_file_step del: copy_media.simps)

theorem copy_media_skips_existing_witness:
  "copy_media [([''ns'', ''a.png''], RegularFile ''new''), ([''b.png''], RegularFile ''bee'')]
      [''out''] False
      \<lparr>files = [[''out'', ''_media'', ''ns'', ''a.png''] \<mapsto> ''old''], dirs = {}\<rparr>
     = copy_media [([''b.png''], RegularFile ''bee'')] [''out''] False
         \<lparr>files = [[''out'', ''_media'', ''ns'', ''a.png''] \<mapsto> ''old''], dirs = {}\<rparr>
   \<and> files (copy_media
          [([''ns'', ''a.png''], RegularFile ''new''), ([''b.png''], RegularFile ''bee'')]
          [''out''] False
          \<lparr>files = [[''out'', ''_media'', ''ns'', ''a.png''] \<mapsto> ''old''], dirs = {}\<rparr>)
        [''out'', ''_media'', ''ns'', ''a.png'']
     = Some ''old''
   \<and> convert_site None [] [''out'']
        (Some [([''ns'', ''a.png''], RegularFile ''new''), ([''b.png''], RegularFile ''bee'')])
        False
        \<lparr>files = [[''out'', ''_media'', ''ns'', ''a.png''] \<mapsto> ''old''], dirs = {}\<rparr>
     = (None,
        \<lparr>files = [[''out'', ''_media'', ''ns'', ''a.png''] \<mapsto> ''old'',
                   [''out'', ''_media'', ''b.png''] \<mapsto> ''bee''],
          dirs = {[''out''], [''out'', ''_media'']}\<rparr>)"
proof -
  let ?fs = "\<lparr>files = [[''out'', ''_media'', ''ns'', ''a.png''] \<mapsto> ''old''], dirs = {}\<rparr>"
  let ?media = "[([''ns'', ''a.png''], RegularFile ''new''), ([''b.png''], RegularFile ''bee'')]"
  have dest_a: "media_dest [''out''] [''ns'', ''a.png''] = [''out'', ''_media'', ''ns'', ''a.png'']"
    and dest_b: "media_dest [''out''] [''b.png''] = [''out'', ''_media'', ''b.png'']"
    by (simp_all add: media_dest_def pjoin_def)
  have h1: "exists ?fs (media_dest [''out''] [''ns'', ''a.png''])"
    by (simp add: dest_a exists_def)
  have h2: "files ?fs [''out'', ''_media'', ''ns'', ''a.png''] = Some ''old''"
    by simp
  have h3: "convert_pages (converter_of None) [] [''out''] False ?fs = (None, ?fs)"
    by simp
  have run: "copy_media ?media [''out''] False ?fs =
        \<lparr>files = [[''out'', ''_media'', ''ns'', ''a.png''] \<mapsto> ''old'',
                   [''out'', ''_media'', ''b.png''] \<mapsto> ''bee''],
          dirs = {[''out''], [''out'', ''_media'']}\<rparr>"
    by (simp add: copy_media_file_step dest_a dest_b exists_def copy2_def mkdir_def parent_def
          insert_commute del: copy_media.simps(3))
  from copy_media_skips_existing
    [where fs = ?fs and dest_root = "[''out'']" and rel_ns = "[''ns'', ''a.png'']"
       and force = False and bytes = "''new''" and media = "[([''b.png''], RegularFile ''bee'')]"]
    h1
  have "copy_media ?media [''out''] False ?fs
          = copy_media [([''b.png''], RegularFile ''bee'')] [''out''] False ?fs"
    by simp
  moreover from copy_media_skips_existing
    [where fs = ?fs and p = "[''out'', ''_media'', ''ns'', ''a.png'']" and old = "''old''"
       and media = ?media and dest_root = "[''out'']"]
    h2
  have "files (copy_media ?media [''out''] False ?fs) [''out'', ''_media'', ''ns'', ''a.png'']
          = Some ''old''"
    by simp
  moreover from copy_media_skips_existing
    [where fs = ?fs and dk2md = None and pages = "[]" and dest_root = "[''out'']"
       and force = False and fs' = ?fs and media = ?media]
    h3 run
  have "convert_site None [] [''out''] (Some ?media) False ?fs =
      (None, \<lparr>files = [[''out'', ''_media'', ''ns'', ''a.png''] \<mapsto> ''old'',
                   [''out'', ''_media'', ''b.png''] \<mapsto> ''bee''],
          dirs = {[''out''], [''out'', ''_media'']}\<rparr>)"
    by simp
  ultimately show ?thesis by blast
qed

subsection \<open>C9: image references and media destinations\<close>



subsection \<open>Choice points\<close>




lemma greedy_top: "lo \<le> hi \<Longrightarrow> greedy lo hi = hi # rev [lo..<hi]"
  by (simp add: greedy_def)


lemma set_greedy [simp]: "set (greedy lo hi) = {lo..hi}"
  by (auto simp: greedy_def)

lemma set_lazy [simp]: "set (lazy lo hi) = {lo..hi}"
  by (auto simp: lazy_def)

lemma first_match_greedy_top:
  "lo \<le> hi \<Longrightarrow> k hi = Some r \<Longrightarrow> first_match k (greedy lo hi) = Some r"
  by (simp add: greedy_top)




subsection \<open>Literals and runs\<close>

lemma lit_Nil [simp]: "lit [] s = Some s"
  by (simp add: lit_def)

lemma lit_Cons_Nil [simp]: "lit (a # l) [] = None"
  by (simp add: lit_def)

lemma lit_Cons_Cons [simp]: "lit (a # l) (c # s) = (if a = c then lit l s else None)"
  by (simp add: lit_def)

lemma lit_append [simp]: "lit l (l @ s) = Some s"
  by (simp add: lit_def)




lemma run_Cons [simp]: "run cls (c # s) = (if cls c then Suc (run cls s) else 0)"
  by (simp add: run_def)

lemma run_Nil [simp]: "run cls [] = 0"
  by (simp add: run_def)

subsection \<open>The scan\<close>


lemma re_sub_from_no_match:
  "pat bol (c # cs) = None \<Longrightarrow>
   re_sub_from pat repl bol (c # cs) = c # re_sub_from pat repl (c = NL) cs"
  by simp



subsection \<open>Links and images\<close>

text \<open>The definitions that the evaluation of the converter on a given text unfolds.\<close>

lemmas eval_defs =
  dk_to_md_regex_def re_sub_def BOLD_ITALIC_REPLACEMENTS_def HEADING_RE_def
  heading_rest_def BOLD_RE_def ITALIC_RE_def span_pattern_def LINK_RE_def IMAGE_RE_def bracket_pattern_def
  CODEBLOCK_RE_def NOWIKI_RE_def TABLE_RE_def greedy_def lazy_def NL_def opt_nl_def
  replace_links_def replace_media_def py_or_def dokuwiki_id_to_path_def COLON_def
  heading_def fence_def table_row_def rstrip_def lstrip_def strip_def is_space_def at_eol_def
  Let_def








subsection \<open>C6: internal links\<close>



subsection \<open>C7: images\<close>



subsection \<open>Code blocks\<close>







lemma is_space_NL [simp]: "is_space NL"
  by (simp add: is_space_def NL_def)



subsection \<open>C1: code blocks\<close>




subsection \<open>Headings\<close>







lemma not_space_eq [simp]: "\<not> is_space CHR ''=''"
  by (simp add: is_space_def)



lemma HEADING_RE_not_bol [simp]: "HEADING_RE False s = None"
  by (simp add: HEADING_RE_def)









subsection \<open>C2: headings\<close>


text \<open>
  The white space of the pattern may be a newline, so a match that begins on an earlier
  line can take a heading line with it, and a longer run can be found again on a later
  line; therefore the line of the amended claim comes after a text without signs, and,
  when the run at its end is the shorter one, before a text without signs.
\<close>

lemma heading_spans_lines:
  "re_sub HEADING_RE heading ''==\<newline>== A =='' = ''## == A''"
  "re_sub HEADING_RE heading ''=== A ==\<newline>==='' = ''### A ==''"
  by (simp_all add: eval_defs)



subsection \<open>The scan advances; unmatched text\<close>

















subsection \<open>C8: the converter is total\<close>



end
